theory Spec2Isabelle
  imports Complex_Main "HOL-Library.Char_ord" "HOL-Library.List_Lexorder"
begin

section \<open>Values\<close>

text \<open>
  A JavaScript number is modelled as a real, or \<open>None\<close> for a value that is not a finite
  number (\<open>NaN\<close>; the model has neither rounding nor overflow). Addition, subtraction
  and multiplication give a non-finite result as soon as one operand is non-finite, and
  every comparison with \<open>NaN\<close> is false.
\<close>

type_synonym jsnum = "real option"

definition jadd :: "jsnum \<Rightarrow> jsnum \<Rightarrow> jsnum" where
  "jadd a b = (case a of None \<Rightarrow> None | Some x \<Rightarrow> (case b of None \<Rightarrow> None | Some y \<Rightarrow> Some (x + y)))"

definition jsub :: "jsnum \<Rightarrow> jsnum \<Rightarrow> jsnum" where
  "jsub a b = (case a of None \<Rightarrow> None | Some x \<Rightarrow> (case b of None \<Rightarrow> None | Some y \<Rightarrow> Some (x - y)))"

definition jmul :: "jsnum \<Rightarrow> jsnum \<Rightarrow> jsnum" where
  "jmul a b = (case a of None \<Rightarrow> None | Some x \<Rightarrow> (case b of None \<Rightarrow> None | Some y \<Rightarrow> Some (x * y)))"

text \<open>\<open>a / b\<close>: dividing by zero gives an infinity or \<open>NaN\<close>, never a finite number.\<close>

definition jdiv :: "real \<Rightarrow> real \<Rightarrow> jsnum" where
  "jdiv a b = (if b = 0 then None else Some (a / b))"

text \<open>\<open>a >= b\<close>, false when \<open>a\<close> is \<open>NaN\<close>.\<close>

definition jge :: "jsnum \<Rightarrow> real \<Rightarrow> bool" where
  "jge a b = (case a of None \<Rightarrow> False | Some x \<Rightarrow> b \<le> x)"

definition isFinite :: "jsnum \<Rightarrow> bool" where
  "isFinite a = (a \<noteq> None)"

text \<open>\<open>const clamp = (v, min, max) => Math.max(min, Math.min(max, v))\<close>\<close>

definition clamp :: "real \<Rightarrow> real \<Rightarrow> real \<Rightarrow> real" where
  "clamp v lo hi = max lo (min hi v)"

subsection \<open>Strings\<close>

text \<open>
  An optional string field is \<open>None\<close> when it is \<open>null\<close> or \<open>undefined\<close>. Such a field
  is falsy when it is absent or the empty string; \<open>x || ''\<close> reads it.
\<close>

definition truthy :: "string option \<Rightarrow> bool" where
  "truthy v = (case v of None \<Rightarrow> False | Some s \<Rightarrow> s \<noteq> [])"

definition orEmpty :: "string option \<Rightarrow> string" where
  "orEmpty v = (case v of None \<Rightarrow> [] | Some s \<Rightarrow> s)"

text \<open>
  The methods \<open>toLowerCase\<close> and \<open>trim\<close> of a JavaScript string follow the Unicode
  tables of letters and of white space, which are outside the program: the two methods
  are parameters of the model.
\<close>

record stringMethods =
  toLowerCase :: "string \<Rightarrow> string"
  trim :: "string \<Rightarrow> string"

fun startsWith :: "string \<Rightarrow> string \<Rightarrow> bool" where
  "startsWith s [] = True"
| "startsWith [] (q # qs) = False"
| "startsWith (c # cs) (q # qs) = (c = q \<and> startsWith cs qs)"

text \<open>\<open>hay.includes(q)\<close>\<close>

fun str_includes :: "string \<Rightarrow> string \<Rightarrow> bool" where
  "str_includes [] q = (q = [])"
| "str_includes (c # cs) q = (if startsWith (c # cs) q then True else str_includes cs q)"

section \<open>Records of the dataset\<close>

text \<open>
  One hit of \<open>data.json\<close>, with the field \<open>_ts\<close> that \<open>load\<close> adds (here \<open>parsed_ts\<close>;
  \<open>None\<close> is the \<open>NaN\<close> of a timestamp that does not parse).
\<close>

record hit =
  ip :: string
  ts :: string
  lat :: "real option"
  lon :: "real option"
  country :: "string option"
  city :: "string option"
  ua_type :: "string option"
  path :: "string option"
  request :: "string option"
  status :: int
  parsed_ts :: jsnum

text \<open>
  The per-address entry that \<open>aggregateIps\<close> builds. The fields that a hit has too
  (\<open>ip\<close>, \<open>country\<close>, \<open>city\<close>, \<open>lat\<close>, \<open>lon\<close>, \<open>ua_type\<close>) carry the prefix \<open>s_\<close> here.
\<close>

record summary =
  s_ip :: string
  count :: nat
  first_seen :: string
  last_seen :: string
  s_country :: "string option"
  s_city :: "string option"
  s_lat :: "real option"
  s_lon :: "real option"
  s_ua_type :: "string option"

subsection \<open>The insertion-ordered \<open>Map\<close>\<close>

type_synonym 'v jsmap = "(string \<times> 'v) list"

fun map_get :: "'v jsmap \<Rightarrow> string \<Rightarrow> 'v option" where
  "map_get [] k = None"
| "map_get ((a, v) # m) k = (if a = k then Some v else map_get m k)"

text \<open>\<open>map.set(k, v)\<close>: an existing key keeps its place, a new one goes last.\<close>

fun map_set :: "string \<Rightarrow> 'v \<Rightarrow> 'v jsmap \<Rightarrow> 'v jsmap" where
  "map_set k v [] = [(k, v)]"
| "map_set k v ((a, w) # m) = (if a = k then (k, v) # m else (a, w) # map_set k v m)"

definition map_values :: "'v jsmap \<Rightarrow> 'v list" where
  "map_values m = map snd m"

section \<open>Aggregation\<close>

text \<open>The entry made for an address that the map does not hold yet.\<close>

definition newEntry :: "hit \<Rightarrow> summary" where
  "newEntry h =
     \<lparr> s_ip = ip h, count = 0, first_seen = ts h, last_seen = ts h,
       s_country = country h, s_city = city h, s_lat = lat h, s_lon = lon h,
       s_ua_type = ua_type h \<rparr>"

text \<open>The updates that the loop of \<open>aggregateIps\<close> makes to the entry of a hit.\<close>

definition touchEntry :: "hit \<Rightarrow> summary \<Rightarrow> summary" where
  "touchEntry h entry =
    (let e1 = entry \<lparr> count := count entry + 1 \<rparr>;
         e2 = e1 \<lparr> last_seen := ts h \<rparr>;
         e3 = (if \<not> truthy (s_country e2) \<and> truthy (country h)
               then e2 \<lparr> s_country := country h \<rparr> else e2);
         e4 = (if \<not> truthy (s_city e3) \<and> truthy (city h)
               then e3 \<lparr> s_city := city h \<rparr> else e3);
         e5 = (if (s_lat e4 = None \<or> s_lon e4 = None) \<and> lat h \<noteq> None \<and> lon h \<noteq> None
               then e4 \<lparr> s_lat := lat h, s_lon := lon h \<rparr> else e4)
     in if \<not> truthy (s_ua_type e5) \<and> truthy (ua_type h)
        then e5 \<lparr> s_ua_type := ua_type h \<rparr> else e5)"

text \<open>The body of the loop, for one hit.\<close>

definition aggregateHit :: "hit \<Rightarrow> summary jsmap \<Rightarrow> summary jsmap" where
  "aggregateHit h m =
    (let entry = (case map_get m (ip h) of Some e \<Rightarrow> e | None \<Rightarrow> newEntry h)
     in map_set (ip h) (touchEntry h entry) m)"

fun aggregateLoop :: "hit list \<Rightarrow> summary jsmap \<Rightarrow> summary jsmap" where
  "aggregateLoop [] m = m"
| "aggregateLoop (h # hs) m = aggregateLoop hs (aggregateHit h m)"

definition aggregateIps :: "hit list \<Rightarrow> summary list" where
  "aggregateIps hits = map_values (aggregateLoop hits [])"

section \<open>Filtering\<close>

text \<open>
  \<open>currentFilters\<close>, its fields \<open>text\<close>, \<open>country\<close>, \<open>city\<close> and \<open>device\<close> with the
  prefix \<open>f_\<close>. The bounds \<open>startTs\<close> and \<open>endTs\<close> are \<open>None\<close> while they are \<open>null\<close>.
\<close>

record filters =
  f_text :: string
  f_country :: string
  f_city :: string
  f_device :: string
  startTs :: "real option"
  endTs :: "real option"

definition initialFilters :: filters where
  "initialFilters =
     \<lparr> f_text = [], f_country = ''all'', f_city = ''all'', f_device = ''all'',
       startTs = None, endTs = None \<rparr>"

text \<open>A number used as a condition: \<open>NaN\<close> and \<open>0\<close> are falsy.\<close>

definition truthyNum :: "jsnum \<Rightarrow> bool" where
  "truthyNum a = (case a of None \<Rightarrow> False | Some x \<Rightarrow> x \<noteq> 0)"

text \<open>
  \<open>a < b\<close> and \<open>a > b\<close>, false when \<open>a\<close> is \<open>NaN\<close>. The program compares with a bound only
  after it has found the bound not to be \<open>null\<close>.
\<close>

definition num_lt :: "jsnum \<Rightarrow> real option \<Rightarrow> bool" where
  "num_lt a b = (case a of None \<Rightarrow> False | Some x \<Rightarrow> (case b of None \<Rightarrow> False | Some y \<Rightarrow> x < y))"

definition num_gt :: "jsnum \<Rightarrow> real option \<Rightarrow> bool" where
  "num_gt a b = (case a of None \<Rightarrow> False | Some x \<Rightarrow> (case b of None \<Rightarrow> False | Some y \<Rightarrow> x > y))"

text \<open>The string that the free-text query is searched in.\<close>

definition hayOf :: "stringMethods \<Rightarrow> hit \<Rightarrow> string" where
  "hayOf M h =
     toLowerCase M (ip h @ '' '' @ orEmpty (country h) @ '' '' @ orEmpty (city h) @ '' '' @
                    orEmpty (ua_type h) @ '' '' @ orEmpty (path h) @ '' '' @ orEmpty (request h))"

definition hitMatchesFilters :: "stringMethods \<Rightarrow> hit \<Rightarrow> filters \<Rightarrow> string option \<Rightarrow> bool" where
  "hitMatchesFilters M h f textHay =
    (let q = toLowerCase M (trim M (f_text f));
         hay = (if truthy textHay then orEmpty textHay else hayOf M h)
     in if q \<noteq> [] \<and> \<not> str_includes hay q then False
        else if f_country f \<noteq> ''all'' \<and>
                toLowerCase M (orEmpty (country h)) \<noteq> toLowerCase M (f_country f) then False
        else if f_city f \<noteq> ''all'' \<and>
                toLowerCase M (orEmpty (city h)) \<noteq> toLowerCase M (f_city f) then False
        else if f_device f \<noteq> ''all'' \<and>
                toLowerCase M (orEmpty (ua_type h)) \<noteq> toLowerCase M (f_device f) then False
        else if startTs f \<noteq> None \<and> truthyNum (parsed_ts h) \<and> num_lt (parsed_ts h) (startTs f)
          then False
        else if endTs f \<noteq> None \<and> truthyNum (parsed_ts h) \<and> num_gt (parsed_ts h) (endTs f)
          then False
        else True)"

text \<open>
  What \<open>applyFilters\<close> computes: the filtered hits, their summaries, and the summaries
  with coordinates, which become \<open>points\<close>. The hit and address counts that
  \<open>renderStats\<close> receives are the lengths of the first two.
\<close>

record applied =
  filteredHits :: "hit list"
  ipSummary :: "summary list"
  points :: "summary list"

definition applyFilters :: "stringMethods \<Rightarrow> hit list \<Rightarrow> filters \<Rightarrow> applied" where
  "applyFilters M allHits currentFilters =
    (let fh = filter (\<lambda>h. hitMatchesFilters M h currentFilters None) allHits;
         summ = aggregateIps fh
     in \<lparr> filteredHits = fh, ipSummary = summ,
          points = filter (\<lambda>p. s_lat p \<noteq> None \<and> s_lon p \<noteq> None) summ \<rparr>)"

section \<open>Loading and the time range\<close>

text \<open>
  \<open>load\<close> gives every hit its \<open>_ts\<close>, the value of \<open>Date.parse\<close> on its timestamp
  string; \<open>Date.parse\<close> is a parameter of the model.
\<close>

definition loadHits :: "(string \<Rightarrow> jsnum) \<Rightarrow> hit list \<Rightarrow> hit list" where
  "loadHits Date_parse hits = map (\<lambda>h. h \<lparr> parsed_ts := Date_parse (ts h) \<rparr>) hits"

record timeDomain =
  td_min :: real
  td_max :: real

text \<open>\<open>h._ts || Date.now()\<close>, with the clock read as one value \<open>now\<close>.\<close>

definition tsOrNow :: "real \<Rightarrow> hit \<Rightarrow> real" where
  "tsOrNow now h = (case parsed_ts h of None \<Rightarrow> now | Some t \<Rightarrow> if t \<noteq> 0 then t else now)"

definition loadTimeDomain :: "real \<Rightarrow> hit list \<Rightarrow> timeDomain" where
  "loadTimeDomain now allHits =
    (case map (tsOrNow now) allHits of
       [] \<Rightarrow> \<lparr> td_min = now, td_max = now \<rparr>
     | t # rest \<Rightarrow> \<lparr> td_min = fold min rest t, td_max = fold max rest t \<rparr>)"

text \<open>
  \<open>updateTimeFromInputs\<close>: \<open>startIn\<close> and \<open>endIn\<close> are \<open>Number(timeStartEl.value)\<close> and
  \<open>Number(timeEndEl.value)\<close>.
\<close>

definition updateTimeFromInputs :: "timeDomain \<Rightarrow> jsnum \<Rightarrow> jsnum \<Rightarrow> filters \<Rightarrow> filters" where
  "updateTimeFromInputs td startIn endIn currentFilters =
    (let startVal = (case startIn of None \<Rightarrow> td_min td | Some v \<Rightarrow> v);
         endVal = (case endIn of None \<Rightarrow> td_max td | Some v \<Rightarrow> v);
         (startVal', endVal') = (if startVal > endVal then (endVal, startVal) else (startVal, endVal))
     in currentFilters \<lparr> startTs := Some startVal', endTs := Some endVal' \<rparr>)"

section \<open>The view\<close>

text \<open>The three entries of the projection selector, and the two drag modes.\<close>

datatype projName = Orthographic | Mercator | VanDerGrinten

datatype dragMode = Rotate | Pan

text \<open>
  A projection object of d3-geo, as far as the program sets it: which projection it is,
  its translation, its scale and its rotation (initially \<open>[0, 0]\<close>).
\<close>

record geoProjection =
  kind :: projName
  translate :: "jsnum \<times> jsnum"
  scale :: real
  rotate :: "jsnum \<times> jsnum"

text \<open>
  The module's view variables. \<open>lastPos\<close> is \<open>null\<close> or a pair whose components may be
  \<open>undefined\<close>; \<open>projection\<close> is \<open>undefined\<close> until \<open>setupProjection\<close> has run;
  \<open>dragMode\<close> is the variable of that name in \<open>enableDrag\<close>.
\<close>

record view =
  width :: real
  height :: real
  radius :: real
  projectionName :: projName
  allowRotation :: bool
  zoom :: real
  panX :: jsnum
  panY :: jsnum
  rotation :: jsnum
  dragging :: bool
  lastPos :: "(real option \<times> real option) option"
  dragMode :: dragMode
  projection :: "geoProjection option"

definition initialView :: view where
  "initialView =
     \<lparr> width = 900, height = 500, radius = max 900 500 / 2 - 20,
       projectionName = Orthographic, allowRotation = True, zoom = 1,
       panX = Some 0, panY = Some 0, rotation = Some 0, dragging = False,
       lastPos = None, dragMode = Rotate, projection = None \<rparr>"

fun projectionScale :: "projName \<Rightarrow> real" where
  "projectionScale Orthographic = 1"
| "projectionScale Mercator = 0.55"
| "projectionScale VanDerGrinten = 0.55"

definition setupProjection :: "view \<Rightarrow> view" where
  "setupProjection s =
    (let common_translate = (jadd (Some (width s / 2)) (panX s), jadd (Some (height s / 2)) (panY s));
         common_scale = radius s;
         scaleFactor = projectionScale (projectionName s);
         scaled = common_scale * scaleFactor * zoom s
     in if projectionName s = Mercator then
          s \<lparr> projection := Some \<lparr> kind = Mercator, translate = common_translate,
                                   scale = scaled, rotate = (Some 0, Some 0) \<rparr>,
              allowRotation := False \<rparr>
        else if projectionName s = VanDerGrinten then
          s \<lparr> projection := Some \<lparr> kind = VanDerGrinten, translate = common_translate,
                                   scale = scaled, rotate = (Some 0, Some 0) \<rparr>,
              allowRotation := False \<rparr>
        else
          s \<lparr> projection := Some \<lparr> kind = Orthographic, translate = common_translate,
                                   scale = scaled, rotate = (Some 0, Some 0) \<rparr>,
              allowRotation := True \<rparr>)"

text \<open>What \<open>draw\<close> does to the state: it sets the rotation of the projection.\<close>

definition draw :: "view \<Rightarrow> view" where
  "draw s =
    (case projection s of
       None \<Rightarrow> s
     | Some P \<Rightarrow>
         if allowRotation s then s \<lparr> projection := Some (P \<lparr> rotate := (rotation s, Some (- 15)) \<rparr>) \<rparr>
         else s \<lparr> projection := Some (P \<lparr> rotate := (Some 0, Some 0) \<rparr>) \<rparr>)"

text \<open>
  \<open>resizeCanvas\<close>, given the width and height that it reads from the page.
\<close>

definition resizeCanvas :: "real \<Rightarrow> real \<Rightarrow> view \<Rightarrow> view" where
  "resizeCanvas w h s =
     draw (setupProjection (s \<lparr> width := w, height := h, radius := min w h / 2 - 10 \<rparr>))"

definition animate :: "view \<Rightarrow> view" where
  "animate s =
    (let s1 = (if \<not> dragging s \<and> allowRotation s then
                 (let r = jadd (rotation s) (Some 0.05)
                  in s \<lparr> rotation := (if jge r 180 then jsub r (Some 360) else r) \<rparr>)
               else s)
     in draw s1)"

subsection \<open>Dragging\<close>

text \<open>
  A mouse or touch event: \<open>clientX\<close> and \<open>clientY\<close> are \<open>undefined\<close> on a touch event,
  \<open>touchX\<close> and \<open>touchY\<close> stand for \<open>e.touches?.[0]?.clientX\<close> and
  \<open>e.touches?.[0]?.clientY\<close>.
\<close>

record pointerEvent =
  shiftKey :: bool
  clientX :: "real option"
  clientY :: "real option"
  touchX :: "real option"
  touchY :: "real option"

text \<open>\<open>a || b\<close> on coordinates: \<open>undefined\<close> and \<open>0\<close> are falsy.\<close>

definition orElse :: "real option \<Rightarrow> real option \<Rightarrow> real option" where
  "orElse a b = (case a of None \<Rightarrow> b | Some v \<Rightarrow> if v \<noteq> 0 then Some v else b)"

definition onDown :: "pointerEvent \<Rightarrow> view \<Rightarrow> view" where
  "onDown e s =
     s \<lparr> dragMode := (if \<not> allowRotation s then Pan else (if shiftKey e then Pan else Rotate)),
         dragging := True,
         lastPos := Some (orElse (clientX e) (touchX e), orElse (clientY e) (touchY e)) \<rparr>"

definition onMove :: "pointerEvent \<Rightarrow> view \<Rightarrow> view" where
  "onMove e s =
    (if \<not> dragging s then s
     else
       let x = orElse (clientX e) (touchX e);
           y = orElse (clientY e) (touchY e)
       in case lastPos s of
            None \<Rightarrow> s
          | Some (lastX, lastY) \<Rightarrow>
              if x = None \<or> y = None then s
              else
                let dx = jsub x lastX;
                    dy = jsub y lastY;
                    s1 = (if allowRotation s \<and> dragMode s = Rotate then
                            s \<lparr> rotation := jadd (rotation s) (jmul dx (Some 0.3)) \<rparr>
                          else
                            draw (setupProjection
                                    (s \<lparr> panX := jadd (panX s) dx, panY := jadd (panY s) dy \<rparr>)))
                in s1 \<lparr> lastPos := Some (x, y) \<rparr>)"

definition onUp :: "view \<Rightarrow> view" where
  "onUp s = s \<lparr> dragging := False \<rparr>"

subsection \<open>Zooming\<close>

text \<open>
  The wheel handler; \<open>cx\<close> and \<open>cy\<close> are the cursor position relative to the canvas
  (\<open>e.clientX - rect.left\<close>, \<open>e.clientY - rect.top\<close>).
\<close>

definition onWheel :: "real \<Rightarrow> real \<Rightarrow> real \<Rightarrow> view \<Rightarrow> view" where
  "onWheel deltaY cx cy s =
    (let factor = (if deltaY > 0 then 0.9 else 1.1);
         centerX = jadd (Some (width s / 2)) (panX s);
         centerY = jadd (Some (height s / 2)) (panY s);
         dx = jsub (Some cx) centerX;
         dy = jsub (Some cy) centerY;
         prevZoom = zoom s;
         nextZoom = clamp (zoom s * factor) 0.5 6;
         scaleChange = jdiv nextZoom prevZoom
     in draw (setupProjection
          (s \<lparr> panX := jsub (panX s) (jmul dx (jsub scaleChange (Some 1))),
               panY := jsub (panY s) (jmul dy (jsub scaleChange (Some 1))),
               zoom := nextZoom \<rparr>)))"

text \<open>The change handler of the projection selector.\<close>

definition onProjectionChange :: "projName \<Rightarrow> view \<Rightarrow> view" where
  "onProjectionChange name s =
     draw (setupProjection
       (s \<lparr> projectionName := name, rotation := Some 0, zoom := 1, panX := Some 0, panY := Some 0 \<rparr>))"

subsection \<open>Runs\<close>

datatype event =
    Down pointerEvent
  | Move pointerEvent
  | Up
  | Wheel real real real
  | Tick
  | ProjectionChange projName
  | Resize real real

fun step :: "event \<Rightarrow> view \<Rightarrow> view" where
  "step (Down e) s = onDown e s"
| "step (Move e) s = onMove e s"
| "step Up s = onUp s"
| "step (Wheel deltaY cx cy) s = onWheel deltaY cx cy s"
| "step Tick s = animate s"
| "step (ProjectionChange name) s = onProjectionChange name s"
| "step (Resize w h) s = resizeCanvas w h s"

text \<open>The state after a sequence of events, from the initial values of the variables.\<close>

definition run :: "event list \<Rightarrow> view" where
  "run evs = fold step evs initialView"

section \<open>Drawing the points\<close>

text \<open>
  d3-geo is outside the program. Its two functions that matter here are parameters:
  \<open>geoRotation angles point\<close> is \<open>d3.geoRotation(angles)(point)\<close>, and
  \<open>d3raw kind angles point\<close> is the projection of that kind at scale 1 and translation
  \<open>[0, 0]\<close> under the rotation \<open>angles\<close> (\<open>None\<close> when d3 returns \<open>null\<close>). A projection with
  scale \<open>k\<close> and translation \<open>[tx, ty]\<close> maps the point to \<open>[tx + k * x, ty - k * y]\<close>.
\<close>

type_synonym d3rotation = "jsnum \<times> jsnum \<Rightarrow> real \<times> real \<Rightarrow> (jsnum \<times> jsnum) option"

type_synonym d3raw = "projName \<Rightarrow> jsnum \<times> jsnum \<Rightarrow> real \<times> real \<Rightarrow> (jsnum \<times> jsnum) option"

definition project :: "d3raw \<Rightarrow> geoProjection \<Rightarrow> real \<times> real \<Rightarrow> (jsnum \<times> jsnum) option" where
  "project raw P point =
    (case raw (kind P) (rotate P) point of
       None \<Rightarrow> None
     | Some (x, y) \<Rightarrow>
         Some (jadd (fst (translate P)) (jmul (Some (scale P)) x),
               jsub (snd (translate P)) (jmul (Some (scale P)) y)))"

text \<open>
  Where a frame drawn in state \<open>s\<close> puts a geographic point: \<open>draw\<close> sets the rotation,
  then the projection is applied.
\<close>

definition screenPos :: "d3raw \<Rightarrow> view \<Rightarrow> real \<times> real \<Rightarrow> (jsnum \<times> jsnum) option" where
  "screenPos raw s point =
    (case projection (draw s) of None \<Rightarrow> None | Some P \<Rightarrow> project raw P point)"

definition jabs :: "jsnum \<Rightarrow> jsnum" where
  "jabs a = map_option abs a"

text \<open>A filled circle, the only primitive that \<open>drawPoints\<close> emits.\<close>

record arc =
  arc_x :: jsnum
  arc_y :: jsnum
  arc_radius :: real

text \<open>The body of the loop of \<open>drawPoints\<close>: the primitives drawn for one point.\<close>

definition drawPoint :: "d3rotation \<Rightarrow> d3raw \<Rightarrow> projName \<Rightarrow> geoProjection \<Rightarrow> summary \<Rightarrow> arc list" where
  "drawPoint geoRotation raw name P p =
    (case s_lat p of
       None \<Rightarrow> []
     | Some la \<Rightarrow>
        (case s_lon p of
           None \<Rightarrow> []
         | Some lo \<Rightarrow>
            (let coord =
                   (if name = Orthographic then
                      (case geoRotation (rotate P) (lo, la) of
                         None \<Rightarrow> None
                       | Some rotated \<Rightarrow>
                           if num_gt (jabs (fst rotated)) (Some 90) then None
                           else project raw P (lo, la))
                    else project raw P (lo, la))
             in case coord of
                  None \<Rightarrow> []
                | Some (x, y) \<Rightarrow>
                    if isFinite x \<and> isFinite y then
                      (let size = 1 + min (if count p = 0 then 1 else real (count p)) 10 * 0.1
                       in [\<lparr> arc_x = x, arc_y = y, arc_radius = size \<rparr>])
                    else [])))"

definition drawPoints :: "d3rotation \<Rightarrow> d3raw \<Rightarrow> view \<Rightarrow> summary list \<Rightarrow> arc list" where
  "drawPoints geoRotation raw s pts =
    (case projection s of
       None \<Rightarrow> []
     | Some P \<Rightarrow> concat (map (drawPoint geoRotation raw (projectionName s) P) pts))"

section \<open>Notions used in the statements\<close>

text \<open>The hits of one address, in input order, and the summary of one address.\<close>

definition hitsOf :: "string \<Rightarrow> hit list \<Rightarrow> hit list" where
  "hitsOf k hits = filter (\<lambda>h. ip h = k) hits"

definition summaryOf :: "string \<Rightarrow> summary list \<Rightarrow> summary option" where
  "summaryOf k summ = find (\<lambda>s. s_ip s = k) summ"

text \<open>
  The timestamps of a list of hits, read by \<open>t\<close> into a linear order: the time that the
  string denotes, or the string itself in the order of strings.
\<close>

definition timesOf :: "(string \<Rightarrow> 'a) \<Rightarrow> hit list \<Rightarrow> 'a list" where
  "timesOf t hs = map (\<lambda>h. t (ts h)) hs"

definition sumCounts :: "summary jsmap \<Rightarrow> nat" where
  "sumCounts m = sum_list (map (\<lambda>p. count (snd p)) m)"

text \<open>Every entry of the map is stored under its own address.\<close>

definition keyed :: "summary jsmap \<Rightarrow> bool" where
  "keyed m = (\<forall>p \<in> set m. s_ip (snd p) = fst p)"

text \<open>\<open>allowRotation\<close> agrees with the projection that is selected.\<close>

definition synced :: "view \<Rightarrow> bool" where
  "synced s = (allowRotation s = (projectionName s = Orthographic))"

definition zoomOk :: "view \<Rightarrow> bool" where
  "zoomOk s = (0.5 \<le> zoom s \<and> zoom s \<le> 6)"

text \<open>The rotation that \<open>draw\<close> gives the projection once \<open>setupProjection\<close> has run.\<close>

definition drawnRotate :: "view \<Rightarrow> jsnum \<times> jsnum" where
  "drawnRotate s =
     (if projectionName s = Orthographic then (rotation s, Some (- 15)) else (Some 0, Some 0))"

text \<open>
  A projection that has been set up has the kind, translation and scale that
  \<open>setupProjection\<close> computes from the variables.
\<close>

definition consistent :: "view \<Rightarrow> bool" where
  "consistent s =
     (case projection s of
        None \<Rightarrow> True
      | Some P \<Rightarrow>
          kind P = projectionName s \<and>
          translate P = (jadd (Some (width s / 2)) (panX s), jadd (Some (height s / 2)) (panY s)) \<and>
          scale P = radius s * projectionScale (projectionName s) * zoom s)"

section \<open>Example data\<close>

text \<open>
  Three hits of the address 1.2.3.4 on three consecutive days, one hit of 5.6.7.8 on the
  second day, a hit whose timestamp does not parse, and a hit at the epoch.
\<close>

definition exampleT1 :: hit where
  "exampleT1 =
     \<lparr> ip = ''1.2.3.4'', ts = ''2024-01-01T00:00:00Z'', lat = None, lon = None,
       country = Some ''US'', city = None, ua_type = None, path = Some ''/'', request = None,
       status = 200, parsed_ts = Some 1704067200000 \<rparr>"

definition exampleT2 :: hit where
  "exampleT2 = exampleT1 \<lparr> ts := ''2024-01-02T00:00:00Z'', parsed_ts := Some 1704153600000 \<rparr>"

definition exampleT3 :: hit where
  "exampleT3 = exampleT1 \<lparr> ts := ''2024-01-03T00:00:00Z'', parsed_ts := Some 1704240000000 \<rparr>"

definition exampleDE :: hit where
  "exampleDE = exampleT2 \<lparr> ip := ''5.6.7.8'', country := Some ''DE'' \<rparr>"

definition exampleBad :: hit where
  "exampleBad = exampleT1 \<lparr> ts := ''yesterday'', parsed_ts := None \<rparr>"

definition exampleEpoch :: hit where
  "exampleEpoch = exampleT1 \<lparr> ts := ''1970-01-01T00:00:00Z'', parsed_ts := Some 0 \<rparr>"

text \<open>\<open>Date.parse\<close> on the timestamps of the examples.\<close>

definition exampleParse :: "string \<Rightarrow> jsnum" where
  "exampleParse str =
     (if str = ''1970-01-01T00:00:00Z'' then Some 0
      else if str = ''2024-01-01T00:00:00Z'' then Some 1704067200000
      else if str = ''2024-01-02T00:00:00Z'' then Some 1704153600000
      else if str = ''2024-01-03T00:00:00Z'' then Some 1704240000000
      else None)"

text \<open>
  The two string methods on ASCII text, which is the text of the examples: a capital
  letter \<open>A\<close> to \<open>Z\<close> (codes 65 to 90) becomes the letter 32 places further, which is
  the same code with bit 5 set, and the ASCII white space is stripped from both ends.
\<close>

definition lowerChar :: "char \<Rightarrow> char" where
  "lowerChar c =
     (if (65::nat) \<le> of_char c \<and> of_char c \<le> (90::nat)
      then (case c of Char b0 b1 b2 b3 b4 b5 b6 b7 \<Rightarrow> Char b0 b1 b2 b3 b4 True b6 b7)
      else c)"

definition isSpace :: "char \<Rightarrow> bool" where
  "isSpace c = (of_char c \<in> {9, 10, 11, 12, 13, 32 :: nat})"

definition exampleStrings :: stringMethods where
  "exampleStrings =
     \<lparr> toLowerCase = map lowerChar,
       trim = (\<lambda>str. rev (dropWhile isSpace (rev (dropWhile isSpace str)))) \<rparr>"

text \<open>
  Stand-ins for the two functions of d3-geo: a rotation that adds the first angle to the
  longitude, and a projection that divides both coordinates by 90.
\<close>

definition exampleRotation :: d3rotation where
  "exampleRotation angles point = Some (jadd (Some (fst point)) (fst angles), Some (snd point))"

definition exampleRaw :: d3raw where
  "exampleRaw name angles point = Some (Some (fst point / 90), Some (snd point / 90))"

definition examplePoint :: summary where
  "examplePoint =
     \<lparr> s_ip = ''1.2.3.4'', count = 3, first_seen = ''2024-01-01T00:00:00Z'',
       last_seen = ''2024-01-03T00:00:00Z'', s_country = Some ''US'', s_city = None,
       s_lat = Some 0, s_lon = Some 170, s_ua_type = None \<rparr>"

definition exampleDown :: pointerEvent where
  "exampleDown =
     \<lparr> shiftKey = False, clientX = Some 100, clientY = Some 100, touchX = None, touchY = None \<rparr>"

definition exampleMove :: pointerEvent where
  "exampleMove = exampleDown \<lparr> clientX := Some 110, clientY := Some 95 \<rparr>"

text \<open>A mouse-down in the leftmost column of the viewport, and a move from there.\<close>

definition exampleDownEdge :: pointerEvent where
  "exampleDownEdge = exampleDown \<lparr> clientX := Some 0 \<rparr>"

definition exampleMoveEdge :: pointerEvent where
  "exampleMoveEdge = exampleDown \<lparr> clientX := Some 10, clientY := Some 110 \<rparr>"

section \<open>Aggregation: first and last timestamp, and the counts\<close>

lemma map_get_map_set:
  "map_get (map_set k v m) k' = (if k' = k then Some v else map_get m k')"
  by (induction m) auto

lemma hitsOf_Nil: "hitsOf k [] = []"
  by (simp add: hitsOf_def)

lemma hitsOf_Cons:
  "hitsOf k (h # hs) = (if ip h = k then h # hitsOf k hs else hitsOf k hs)"
  by (simp add: hitsOf_def)

lemma hitsOf_nonempty: "k \<in> ip ` set hits \<Longrightarrow> hitsOf k hits \<noteq> []"
  by (auto simp: hitsOf_def filter_empty_conv)

lemma count_touchEntry: "count (touchEntry h e) = Suc (count e)"
  by (simp add: touchEntry_def Let_def)

lemma first_seen_touchEntry: "first_seen (touchEntry h e) = first_seen e"
  by (simp add: touchEntry_def Let_def)

lemma last_seen_touchEntry: "last_seen (touchEntry h e) = ts h"
  by (simp add: touchEntry_def Let_def)

lemma s_ip_touchEntry: "s_ip (touchEntry h e) = s_ip e"
  by (simp add: touchEntry_def Let_def)

lemma map_get_aggregateHit:
  "map_get (aggregateHit h m) k =
     (if k = ip h
      then Some (touchEntry h (case map_get m k of Some e \<Rightarrow> e | None \<Rightarrow> newEntry h))
      else map_get m k)"
  by (simp add: aggregateHit_def map_get_map_set)

text \<open>Hits of other addresses leave the entry of an address alone.\<close>

lemma aggregateLoop_other:
  "hitsOf k hs = [] \<Longrightarrow> map_get (aggregateLoop hs m) k = map_get m k"
  by (induction hs arbitrary: m)
     (auto simp: hitsOf_Nil hitsOf_Cons map_get_aggregateHit split: if_splits)

text \<open>
  The entry of an address after the loop: its \<open>last_seen\<close> is the timestamp of the last
  hit of the address, its \<open>first_seen\<close> is the one it had, or that of the first hit.
\<close>

lemma aggregateLoop_seen:
  "hitsOf k hs \<noteq> [] \<Longrightarrow>
   \<exists>e. map_get (aggregateLoop hs m) k = Some e \<and>
       last_seen e = ts (last (hitsOf k hs)) \<and>
       first_seen e =
         (case map_get m k of Some e0 \<Rightarrow> first_seen e0 | None \<Rightarrow> ts (hd (hitsOf k hs)))"
proof (induction hs arbitrary: m)
  case Nil
  then show ?case by (simp add: hitsOf_Nil)
next
  case (Cons h hs)
  show ?case
  proof (cases "ip h = k")
    case False
    with Cons.prems have "hitsOf k hs \<noteq> []" by (simp add: hitsOf_Cons)
    from Cons.IH[OF this, of "aggregateHit h m"] False show ?thesis
      by (auto simp: hitsOf_Cons map_get_aggregateHit split: option.splits)
  next
    case True
    show ?thesis
    proof (cases "hitsOf k hs = []")
      case True
      with \<open>ip h = k\<close> show ?thesis
        using aggregateLoop_other[OF True, of "aggregateHit h m"]
        by (auto simp: hitsOf_Cons map_get_aggregateHit first_seen_touchEntry
              last_seen_touchEntry newEntry_def split: option.splits)
    next
      case False
      from Cons.IH[OF False, of "aggregateHit h m"] \<open>ip h = k\<close> False show ?thesis
        by (auto simp: hitsOf_Cons map_get_aggregateHit first_seen_touchEntry newEntry_def
              split: option.splits)
    qed
  qed
qed

lemma keyed_map_set: "keyed m \<Longrightarrow> s_ip v = k \<Longrightarrow> keyed (map_set k v m)"
  by (induction m) (fastforce simp: keyed_def split: if_splits)+

lemma keyed_map_get: "keyed m \<Longrightarrow> map_get m k = Some e \<Longrightarrow> s_ip e = k"
  by (induction m) (auto simp: keyed_def split: if_splits)

lemma keyed_aggregateHit: "keyed m \<Longrightarrow> keyed (aggregateHit h m)"
  by (auto simp: aggregateHit_def s_ip_touchEntry newEntry_def
        intro!: keyed_map_set dest: keyed_map_get split: option.splits)

lemma keyed_aggregateLoop: "keyed m \<Longrightarrow> keyed (aggregateLoop hs m)"
  by (induction hs arbitrary: m) (simp_all add: keyed_aggregateHit)

lemma find_keyed: "keyed m \<Longrightarrow> find (\<lambda>s. s_ip s = k) (map_values m) = map_get m k"
  by (induction m) (auto simp: keyed_def map_values_def)

lemma sorted_hd_Min: "sorted xs \<Longrightarrow> xs \<noteq> [] \<Longrightarrow> hd xs = Min (set xs)"
  by (cases xs) (auto intro!: Min_eqI[symmetric])

lemma sorted_last_Max: "sorted xs \<Longrightarrow> xs \<noteq> [] \<Longrightarrow> last xs = Max (set xs)"
  by (induction xs) (auto intro!: Max_eqI[symmetric] simp: max_def)

text \<open>
  Claim C1, as the code has it. For every list of hits and every address that occurs in
  it, the summary of the address has as \<open>first_seen\<close> the timestamp of the first hit of the
  address in input order, and as \<open>last_seen\<close> the timestamp of its last hit in input
  order. When the hits of the address come in non-decreasing order of time, these are the
  minimum and the maximum of the timestamps of the address.
\<close>

theorem aggregateIps_seen_first_last:
  fixes t :: "string \<Rightarrow> 'a::linorder"
  assumes "k \<in> ip ` set hits"
  shows "\<exists>s. summaryOf k (aggregateIps hits) = Some s \<and>
             first_seen s = ts (hd (hitsOf k hits)) \<and>
             last_seen s = ts (last (hitsOf k hits)) \<and>
             (sorted (timesOf t (hitsOf k hits)) \<longrightarrow>
                t (first_seen s) = Min (set (timesOf t (hitsOf k hits))) \<and>
                t (last_seen s) = Max (set (timesOf t (hitsOf k hits))))"
proof -
  have ne: "hitsOf k hits \<noteq> []" using assms by (rule hitsOf_nonempty)
  from aggregateLoop_seen[OF ne, of "[]"] obtain e where
    e: "map_get (aggregateLoop hits []) k = Some e"
       "last_seen e = ts (last (hitsOf k hits))"
       "first_seen e = ts (hd (hitsOf k hits))"
    by auto
  have "keyed (aggregateLoop hits [])"
    by (rule keyed_aggregateLoop) (simp add: keyed_def)
  then have f: "summaryOf k (aggregateIps hits) = Some e"
    using e(1) by (simp add: summaryOf_def aggregateIps_def find_keyed)
  have tne: "timesOf t (hitsOf k hits) \<noteq> []" using ne by (simp add: timesOf_def)
  have hd_t: "t (ts (hd (hitsOf k hits))) = hd (timesOf t (hitsOf k hits))"
    using ne by (simp add: timesOf_def hd_map)
  have last_t: "t (ts (last (hitsOf k hits))) = last (timesOf t (hitsOf k hits))"
    using ne by (simp add: timesOf_def last_map)
  show ?thesis
    using f e(2,3) hd_t last_t sorted_hd_Min[OF _ tne] sorted_last_Max[OF _ tne]
    by auto
qed

text \<open>The three hits of 1.2.3.4 in order of time: first and last seen are the extremes.\<close>

theorem aggregateIps_seen_first_last_witness:
  "''1.2.3.4'' \<in> ip ` set [exampleT1, exampleDE, exampleT2, exampleT3] \<and>
   sorted (timesOf id (hitsOf ''1.2.3.4'' [exampleT1, exampleDE, exampleT2, exampleT3])) \<and>
   (\<exists>s. summaryOf ''1.2.3.4'' (aggregateIps [exampleT1, exampleDE, exampleT2, exampleT3]) = Some s \<and>
        first_seen s = ''2024-01-01T00:00:00Z'' \<and>
        last_seen s = ''2024-01-03T00:00:00Z'' \<and>
        first_seen s =
          Min (set (timesOf id (hitsOf ''1.2.3.4'' [exampleT1, exampleDE, exampleT2, exampleT3]))) \<and>
        last_seen s =
          Max (set (timesOf id (hitsOf ''1.2.3.4'' [exampleT1, exampleDE, exampleT2, exampleT3]))))"
  using aggregateIps_seen_first_last
          [of "''1.2.3.4''" "[exampleT1, exampleDE, exampleT2, exampleT3]" id]
  by (simp add: exampleT1_def exampleT2_def exampleT3_def exampleDE_def hitsOf_def timesOf_def)

text \<open>
  Claim C1 as it is stated fails when the hits are not in order of time: with the hit of
  the third day before the hit of the first day, \<open>first_seen\<close> is not the minimum and
  \<open>last_seen\<close> is not the maximum of the timestamps of the address.
\<close>

theorem aggregateIps_seen_not_min_max:
  "''1.2.3.4'' \<in> ip ` set [exampleT3, exampleT1] \<and>
   map_option first_seen (summaryOf ''1.2.3.4'' (aggregateIps [exampleT3, exampleT1]))
     = Some ''2024-01-03T00:00:00Z'' \<and>
   map_option first_seen (summaryOf ''1.2.3.4'' (aggregateIps [exampleT3, exampleT1]))
     \<noteq> Some (Min (set (timesOf id (hitsOf ''1.2.3.4'' [exampleT3, exampleT1])))) \<and>
   map_option last_seen (summaryOf ''1.2.3.4'' (aggregateIps [exampleT3, exampleT1]))
     = Some ''2024-01-01T00:00:00Z'' \<and>
   map_option last_seen (summaryOf ''1.2.3.4'' (aggregateIps [exampleT3, exampleT1]))
     \<noteq> Some (Max (set (timesOf id (hitsOf ''1.2.3.4'' [exampleT3, exampleT1]))))"
  by (simp add: exampleT1_def exampleT3_def hitsOf_def timesOf_def summaryOf_def
        aggregateIps_def aggregateHit_def touchEntry_def newEntry_def map_values_def truthy_def)

lemma sumCounts_map_set:
  "sumCounts (map_set k v m) + (case map_get m k of None \<Rightarrow> 0 | Some e \<Rightarrow> count e)
     = sumCounts m + count v"
  by (induction m) (auto simp: sumCounts_def)

lemma sumCounts_aggregateHit: "sumCounts (aggregateHit h m) = Suc (sumCounts m)"
  using sumCounts_map_set
          [of "ip h" "touchEntry h (case map_get m (ip h) of Some e \<Rightarrow> e | None \<Rightarrow> newEntry h)" m]
  by (simp add: aggregateHit_def count_touchEntry newEntry_def split: option.splits)

lemma sumCounts_aggregateLoop: "sumCounts (aggregateLoop hs m) = sumCounts m + length hs"
  by (induction hs arbitrary: m) (simp_all add: sumCounts_aggregateHit)

text \<open>
  Claim C2. For every filter state, the counts of the summaries that \<open>applyFilters\<close>
  builds from the filtered hits add up to the number of filtered hits.
\<close>

theorem aggregation_conservation:
  "sum_list (map count (ipSummary (applyFilters M allHits f)))
     = length (filteredHits (applyFilters M allHits f))"
  using sumCounts_aggregateLoop[of "filteredHits (applyFilters M allHits f)" "[]"]
  by (simp add: applyFilters_def Let_def aggregateIps_def map_values_def sumCounts_def comp_def)

text \<open>The country filter US on the four example hits keeps three hits, in one summary.\<close>

theorem aggregation_conservation_witness:
  "sum_list (map count (ipSummary (applyFilters exampleStrings [exampleT1, exampleDE, exampleT2, exampleT3]
                                      (initialFilters \<lparr> f_country := ''US'' \<rparr>)))) = 3 \<and>
   length (filteredHits (applyFilters exampleStrings [exampleT1, exampleDE, exampleT2, exampleT3]
                           (initialFilters \<lparr> f_country := ''US'' \<rparr>))) = 3"
  using aggregation_conservation
          [of exampleStrings "[exampleT1, exampleDE, exampleT2, exampleT3]" "initialFilters \<lparr> f_country := ''US'' \<rparr>"]
  by (simp add: applyFilters_def hitMatchesFilters_def initialFilters_def exampleT1_def
        exampleT2_def exampleT3_def exampleDE_def exampleStrings_def lowerChar_def
        orEmpty_def Let_def)

section \<open>The time range of the filter\<close>

text \<open>
  The last two tests of \<open>hitMatchesFilters\<close> are the only ones that read the bounds.
\<close>

lemma hitMatchesFilters_time:
  "hitMatchesFilters M h f textHay =
     (hitMatchesFilters M h (f\<lparr>startTs := None, endTs := None\<rparr>) textHay \<and>
      \<not> (startTs f \<noteq> None \<and> truthyNum (parsed_ts h) \<and> num_lt (parsed_ts h) (startTs f)) \<and>
      \<not> (endTs f \<noteq> None \<and> truthyNum (parsed_ts h) \<and> num_gt (parsed_ts h) (endTs f)))"
  unfolding hitMatchesFilters_def Let_def by simp

lemma hitMatchesFilters_widen:
  assumes "s1 \<le> s2" "e2 \<le> e1"
    and "hitMatchesFilters M h (f\<lparr>startTs := Some s2, endTs := Some e2\<rparr>) textHay"
  shows "hitMatchesFilters M h (f\<lparr>startTs := Some s1, endTs := Some e1\<rparr>) textHay"
proof -
  have "hitMatchesFilters M h (f\<lparr>startTs := None, endTs := None\<rparr>) textHay"
    and "\<not> (truthyNum (parsed_ts h) \<and> num_lt (parsed_ts h) (Some s2))"
    and "\<not> (truthyNum (parsed_ts h) \<and> num_gt (parsed_ts h) (Some e2))"
    using assms(3) hitMatchesFilters_time[of M h "f\<lparr>startTs := Some s2, endTs := Some e2\<rparr>" textHay]
    by simp_all
  moreover have "num_lt (parsed_ts h) (Some s1) \<Longrightarrow> num_lt (parsed_ts h) (Some s2)"
    using assms(1) by (simp add: num_lt_def split: option.splits)
  moreover have "num_gt (parsed_ts h) (Some e1) \<Longrightarrow> num_gt (parsed_ts h) (Some e2)"
    using assms(2) by (simp add: num_gt_def split: option.splits)
  ultimately show ?thesis
    using hitMatchesFilters_time[of M h "f\<lparr>startTs := Some s1, endTs := Some e1\<rparr>" textHay]
    by auto
qed

lemma length_filter_mono:
  "(\<And>x. x \<in> set xs \<Longrightarrow> P x \<Longrightarrow> Q x) \<Longrightarrow> length (filter P xs) \<le> length (filter Q xs)"
  by (induction xs) auto

text \<open>
  Claim C4. For every list of hits, every text and category filter and two time ranges,
  the second inside the first, no more hits pass the filter with the second range than
  with the first.
\<close>

theorem time_range_monotone:
  assumes "s1 \<le> s2" and "e2 \<le> e1"
  shows "length (filteredHits (applyFilters M allHits (f\<lparr>startTs := Some s2, endTs := Some e2\<rparr>)))
       \<le> length (filteredHits (applyFilters M allHits (f\<lparr>startTs := Some s1, endTs := Some e1\<rparr>)))"
  unfolding applyFilters_def Let_def
  using hitMatchesFilters_widen[OF assms]
  by (simp add: length_filter_mono)

text \<open>Two of the four example hits lie on the second day, all four in the three days.\<close>

theorem time_range_monotone_witness:
  "(1704067200000::real) \<le> 1704153600000 \<and> (1704153600000::real) \<le> 1704240000000 \<and>
   length (filteredHits (applyFilters exampleStrings [exampleT1, exampleDE, exampleT2, exampleT3]
      (initialFilters\<lparr>startTs := Some 1704153600000, endTs := Some 1704153600000\<rparr>))) = 2 \<and>
   length (filteredHits (applyFilters exampleStrings [exampleT1, exampleDE, exampleT2, exampleT3]
      (initialFilters\<lparr>startTs := Some 1704067200000, endTs := Some 1704240000000\<rparr>))) = 4"
  using time_range_monotone
          [of 1704067200000 1704153600000 1704153600000 1704240000000 exampleStrings
              "[exampleT1, exampleDE, exampleT2, exampleT3]" initialFilters]
  by (simp add: applyFilters_def hitMatchesFilters_def initialFilters_def exampleT1_def
        exampleT2_def exampleT3_def exampleDE_def exampleStrings_def
        truthyNum_def num_lt_def num_gt_def Let_def)

lemma hitMatchesFilters_falsy_ts:
  "\<not> truthyNum (parsed_ts h) \<Longrightarrow>
   hitMatchesFilters M h f textHay = hitMatchesFilters M h (f\<lparr>startTs := None, endTs := None\<rparr>) textHay"
  using hitMatchesFilters_time[of M h f textHay] by simp

lemma hitMatchesFilters_ts_irrelevant:
  "\<not> truthyNum (parsed_ts h) \<Longrightarrow>
   hitMatchesFilters M h f textHay = hitMatchesFilters M (h\<lparr>parsed_ts := None\<rparr>) f textHay"
  by (simp add: hitMatchesFilters_def Let_def hayOf_def truthyNum_def)

lemma loadHits_parsed:
  "h \<in> set (loadHits Date_parse raw) \<Longrightarrow> parsed_ts h = Date_parse (ts h)"
  by (auto simp: loadHits_def)

text \<open>
  Claim C5. A loaded hit whose timestamp string does not parse passes the filter exactly
  when it passes the filter with both bounds removed: whatever the bounds are, the time
  range does not exclude it.
\<close>

theorem unparseable_ts_passes:
  assumes "h \<in> set (loadHits Date_parse raw)" and "Date_parse (ts h) = None"
  shows "hitMatchesFilters M h f textHay
           = hitMatchesFilters M h (f\<lparr>startTs := None, endTs := None\<rparr>) textHay"
  using assms loadHits_parsed[OF assms(1)]
  by (intro hitMatchesFilters_falsy_ts) (simp add: truthyNum_def)

text \<open>The hit with the timestamp \<open>yesterday\<close> passes a range of three days in 2024.\<close>

theorem unparseable_ts_passes_witness:
  "exampleBad \<in> set (loadHits exampleParse [exampleBad]) \<and>
   exampleParse (ts exampleBad) = None \<and>
   hitMatchesFilters exampleStrings exampleBad
     (initialFilters\<lparr>startTs := Some 1704067200000, endTs := Some 1704240000000\<rparr>) None \<and>
   hitMatchesFilters exampleStrings exampleBad (initialFilters\<lparr>startTs := None, endTs := None\<rparr>) None"
  using unparseable_ts_passes
          [of exampleBad exampleParse "[exampleBad]" exampleStrings
              "initialFilters\<lparr>startTs := Some 1704067200000, endTs := Some 1704240000000\<rparr>" None]
  by (simp add: loadHits_def exampleParse_def exampleBad_def exampleT1_def
        hitMatchesFilters_def initialFilters_def exampleStrings_def truthyNum_def Let_def)

text \<open>
  Claim C9. A loaded hit whose timestamp parses to 0 is treated by the time range as one
  whose timestamp does not parse: it passes the filter exactly when it passes the filter
  with both bounds removed, also for a range that does not contain 0, and exactly when the
  same hit with \<open>NaN\<close> for its parsed timestamp passes.
\<close>

theorem epoch_ts_passes:
  assumes "h \<in> set (loadHits Date_parse raw)" and "Date_parse (ts h) = Some 0"
  shows "hitMatchesFilters M h f textHay
           = hitMatchesFilters M h (f\<lparr>startTs := None, endTs := None\<rparr>) textHay \<and>
         hitMatchesFilters M h f textHay = hitMatchesFilters M (h\<lparr>parsed_ts := None\<rparr>) f textHay"
  using assms loadHits_parsed[OF assms(1)] hitMatchesFilters_falsy_ts[of h M f textHay]
    hitMatchesFilters_ts_irrelevant[of h M f textHay]
  by (simp add: truthyNum_def)

text \<open>The hit at the epoch passes a range of three days in 2024.\<close>

theorem epoch_ts_passes_witness:
  "exampleEpoch \<in> set (loadHits exampleParse [exampleEpoch]) \<and>
   exampleParse (ts exampleEpoch) = Some 0 \<and>
   \<not> (1704067200000 \<le> (0::real)) \<and>
   hitMatchesFilters exampleStrings exampleEpoch
     (initialFilters\<lparr>startTs := Some 1704067200000, endTs := Some 1704240000000\<rparr>) None \<and>
   hitMatchesFilters exampleStrings (exampleEpoch\<lparr>parsed_ts := None\<rparr>)
     (initialFilters\<lparr>startTs := Some 1704067200000, endTs := Some 1704240000000\<rparr>) None"
  using epoch_ts_passes
          [of exampleEpoch exampleParse "[exampleEpoch]" exampleStrings
              "initialFilters\<lparr>startTs := Some 1704067200000, endTs := Some 1704240000000\<rparr>" None]
  by (simp add: loadHits_def exampleParse_def exampleEpoch_def exampleT1_def
        hitMatchesFilters_def initialFilters_def exampleStrings_def truthyNum_def Let_def)

text \<open>What \<open>load\<close> leaves in the time domain is ordered.\<close>

lemma fold_min_le_fold_max: "(a::real) \<le> b \<Longrightarrow> fold min xs a \<le> fold max xs b"
  by (induction xs arbitrary: a b) (auto simp: min_def max_def)

lemma loadTimeDomain_ordered:
  "td_min (loadTimeDomain now allHits) \<le> td_max (loadTimeDomain now allHits)"
  by (simp add: loadTimeDomain_def fold_min_le_fold_max split: list.splits)

text \<open>
  Claim C10. After every update from the two controls of the time range both bounds are
  numbers and \<open>startTs \<le> endTs\<close>: the bounds are the smaller and the larger of the two
  control values, where a control value that is not a number counts as the bound of the
  time domain on its side.
\<close>

theorem time_bounds_ordered:
  "\<exists>s e. startTs (updateTimeFromInputs td startIn endIn f) = Some s \<and>
         endTs (updateTimeFromInputs td startIn endIn f) = Some e \<and> s \<le> e \<and>
         s = min (case startIn of None \<Rightarrow> td_min td | Some v \<Rightarrow> v)
                 (case endIn of None \<Rightarrow> td_max td | Some v \<Rightarrow> v) \<and>
         e = max (case startIn of None \<Rightarrow> td_min td | Some v \<Rightarrow> v)
                 (case endIn of None \<Rightarrow> td_max td | Some v \<Rightarrow> v)"
  by (auto simp: updateTimeFromInputs_def Let_def split: option.splits)

text \<open>Controls set in reverse order, and a start control that holds no number.\<close>

theorem time_bounds_ordered_witness:
  "startTs (updateTimeFromInputs \<lparr>td_min = 1, td_max = 9\<rparr> (Some 7) (Some 3) initialFilters) = Some 3 \<and>
   endTs (updateTimeFromInputs \<lparr>td_min = 1, td_max = 9\<rparr> (Some 7) (Some 3) initialFilters) = Some 7 \<and>
   startTs (updateTimeFromInputs \<lparr>td_min = 1, td_max = 9\<rparr> None (Some 3) initialFilters) = Some 1 \<and>
   endTs (updateTimeFromInputs \<lparr>td_min = 1, td_max = 9\<rparr> None (Some 3) initialFilters) = Some 3"
  using time_bounds_ordered[of "\<lparr>td_min = 1, td_max = 9\<rparr>" "Some 7" "Some 3" initialFilters]
    time_bounds_ordered[of "\<lparr>td_min = 1, td_max = 9\<rparr>" None "Some 3" initialFilters]
  by auto

section \<open>The view: invariants of a run\<close>

lemma draw_fields [simp]:
  "zoom (draw s) = zoom s" "panX (draw s) = panX s" "panY (draw s) = panY s"
  "rotation (draw s) = rotation s" "projectionName (draw s) = projectionName s"
  "allowRotation (draw s) = allowRotation s" "dragging (draw s) = dragging s"
  "dragMode (draw s) = dragMode s" "lastPos (draw s) = lastPos s"
  "width (draw s) = width s" "height (draw s) = height s" "radius (draw s) = radius s"
  by (simp_all add: draw_def split: option.splits)

lemma setupProjection_fields [simp]:
  "zoom (setupProjection s) = zoom s" "panX (setupProjection s) = panX s"
  "panY (setupProjection s) = panY s" "rotation (setupProjection s) = rotation s"
  "projectionName (setupProjection s) = projectionName s"
  "dragging (setupProjection s) = dragging s" "dragMode (setupProjection s) = dragMode s"
  "lastPos (setupProjection s) = lastPos s" "width (setupProjection s) = width s"
  "height (setupProjection s) = height s" "radius (setupProjection s) = radius s"
  by (simp_all add: setupProjection_def Let_def)

lemma allowRotation_setupProjection [simp]:
  "allowRotation (setupProjection s) = (projectionName s = Orthographic)"
  by (cases "projectionName s") (simp_all add: setupProjection_def Let_def)

lemma clamp_range: "lo \<le> hi \<Longrightarrow> lo \<le> clamp v lo hi \<and> clamp v lo hi \<le> hi"
  by (simp add: clamp_def)

lemma synced_step: "synced s \<Longrightarrow> synced (step e s)"
  by (cases e)
     (auto simp: synced_def onDown_def onMove_def onUp_def onWheel_def animate_def
        onProjectionChange_def resizeCanvas_def Let_def split: option.splits prod.splits)

lemma zoomOk_step: "zoomOk s \<Longrightarrow> zoomOk (step e s)"
  using clamp_range[of "0.5" 6]
  by (cases e)
     (auto simp: zoomOk_def onDown_def onMove_def onUp_def onWheel_def animate_def
        onProjectionChange_def resizeCanvas_def Let_def split: option.splits prod.splits)

lemma fold_step_inv:
  assumes "\<And>s e. I s \<Longrightarrow> I (step e s)" and "I s0"
  shows "I (fold step evs s0)"
  using assms(2) by (induction evs arbitrary: s0) (simp_all add: assms(1))

lemma synced_run: "synced (run evs)"
  unfolding run_def
  by (rule fold_step_inv[of synced, OF synced_step]) (simp_all add: synced_def initialView_def)

lemma zoomOk_run: "zoomOk (run evs)"
  unfolding run_def
  by (rule fold_step_inv[of zoomOk, OF zoomOk_step]) (simp_all add: zoomOk_def initialView_def)

text \<open>
  Claim C8. From the initial zoom 1, after any sequence of events (wheel events and
  changes of projection among them) the zoom factor lies between 0.5 and 6.
\<close>

theorem zoom_bounded: "0.5 \<le> zoom (run evs) \<and> zoom (run evs) \<le> 6"
  using zoomOk_run[of evs] by (simp add: zoomOk_def)

text \<open>Seven steps out reach the lower bound; a change of projection gives 1 again.\<close>

theorem zoom_bounded_witness:
  "zoom (run [Wheel 1 0 0, Wheel 1 0 0, Wheel 1 0 0, Wheel 1 0 0, Wheel 1 0 0, Wheel 1 0 0,
              Wheel 1 0 0]) = 0.5 \<and>
   zoom (run [Wheel 1 0 0, ProjectionChange Mercator]) = 1 \<and>
   0.5 \<le> zoom (run [Wheel 1 0 0, ProjectionChange Mercator, Wheel (- 1) 0 0]) \<and>
   zoom (run [Wheel 1 0 0, ProjectionChange Mercator, Wheel (- 1) 0 0]) \<le> 6"
  using zoom_bounded[of "[Wheel 1 0 0, ProjectionChange Mercator, Wheel (- 1) 0 0]"]
  by (simp add: run_def onWheel_def onProjectionChange_def initialView_def clamp_def Let_def)

text \<open>
  In a state that a run reaches with the Mercator or the van der Grinten projection
  selected: a pointer-down starts a drag in pan mode; no pointer-move changes the rotation
  angle; during a drag whose last position has both coordinates, a pointer-move adds the
  distance from that position to the pan offset; the animation tick leaves the rotation
  angle as it is.
\<close>

lemma non_rotatable_drag:
  assumes "s = run evs" and "projectionName s \<in> {Mercator, VanDerGrinten}"
  shows "dragging (onDown e s) \<and> dragMode (onDown e s) = Pan \<and>
         rotation (onMove e' s) = rotation s \<and>
         (dragging s \<and> lastPos s = Some (Some lastX, Some lastY) \<and>
          orElse (clientX e') (touchX e') = Some x \<and> orElse (clientY e') (touchY e') = Some y \<longrightarrow>
            panX (onMove e' s) = jadd (panX s) (Some (x - lastX)) \<and>
            panY (onMove e' s) = jadd (panY s) (Some (y - lastY))) \<and>
         rotation (animate s) = rotation s"
proof -
  have nr: "\<not> allowRotation s"
    using synced_run[of evs] assms by (auto simp: synced_def)
  show ?thesis
    using nr
    by (auto simp: onDown_def onMove_def animate_def jsub_def Let_def
          split: option.splits prod.splits)
qed

lemma run_example_drag:
  "run [Resize 900 500, ProjectionChange Mercator, Down exampleDown] =
     \<lparr> width = 900, height = 500, radius = 240, projectionName = Mercator,
       allowRotation = False, zoom = 1, panX = Some 0, panY = Some 0, rotation = Some 0,
       dragging = True, lastPos = Some (Some 100, Some 100), dragMode = Pan,
       projection = Some \<lparr> kind = Mercator, translate = (Some 450, Some 250),
                           scale = 132, rotate = (Some 0, Some 0) \<rparr> \<rparr>"
  by (simp add: run_def resizeCanvas_def onProjectionChange_def onDown_def setupProjection_def
        draw_def initialView_def exampleDown_def orElse_def jadd_def Let_def)

text \<open>A drag under Mercator that starts at (100, 100), by 10 to the right and 5 up.\<close>

lemma non_rotatable_drag_example:
  "projectionName (run [Resize 900 500, ProjectionChange Mercator, Down exampleDown])
     \<in> {Mercator, VanDerGrinten} \<and>
   dragging (run [Resize 900 500, ProjectionChange Mercator, Down exampleDown]) \<and>
   lastPos (run [Resize 900 500, ProjectionChange Mercator, Down exampleDown])
     = Some (Some 100, Some 100) \<and>
   orElse (clientX exampleMove) (touchX exampleMove) = Some 110 \<and>
   orElse (clientY exampleMove) (touchY exampleMove) = Some 95 \<and>
   dragMode (onDown exampleDown (run [Resize 900 500, ProjectionChange Mercator, Down exampleDown]))
     = Pan \<and>
   panX (onMove exampleMove (run [Resize 900 500, ProjectionChange Mercator, Down exampleDown]))
     = Some 10 \<and>
   panY (onMove exampleMove (run [Resize 900 500, ProjectionChange Mercator, Down exampleDown]))
     = Some (- 5) \<and>
   rotation (onMove exampleMove (run [Resize 900 500, ProjectionChange Mercator, Down exampleDown]))
     = Some 0 \<and>
   rotation (animate (run [Resize 900 500, ProjectionChange Mercator, Down exampleDown])) = Some 0"
  using non_rotatable_drag
          [of "run [Resize 900 500, ProjectionChange Mercator, Down exampleDown]"
              "[Resize 900 500, ProjectionChange Mercator, Down exampleDown]"
              exampleDown exampleMove 100 100 110 95]
  unfolding run_example_drag
  by (simp add: exampleMove_def exampleDown_def orElse_def jadd_def)

lemma run_snoc: "run (evs @ [e]) = step e (run evs)"
  by (simp add: run_def)

lemma run_edge_down:
  "run [Resize 900 500, ProjectionChange Mercator, Down exampleDownEdge] =
     \<lparr> width = 900, height = 500, radius = 240, projectionName = Mercator,
       allowRotation = False, zoom = 1, panX = Some 0, panY = Some 0, rotation = Some 0,
       dragging = True, lastPos = Some (None, Some 100), dragMode = Pan,
       projection = Some \<lparr> kind = Mercator, translate = (Some 450, Some 250),
                           scale = 132, rotate = (Some 0, Some 0) \<rparr> \<rparr>"
  by (simp add: run_def resizeCanvas_def onProjectionChange_def onDown_def setupProjection_def
        draw_def initialView_def exampleDownEdge_def exampleDown_def orElse_def jadd_def Let_def)

text \<open>
  Claim C7 says that under a non-rotatable projection every pointer-down starts a pan
  drag, that the deltas of the pointer-moves accumulate into the pan offset and leave the
  rotation angle alone, and that the animation tick does not advance the rotation angle.
  The code breaks the accumulation for a drag that starts in the leftmost column of the
  viewport. Under the Mercator projection, a mouse-down at \<open>clientX = 0\<close> starts a pan
  drag, but \<open>e.clientX || e.touches?.[0]?.clientX\<close> takes 0 for a missing value and stores
  \<open>undefined\<close> as the first coordinate of \<open>lastPos\<close>. The move to (10, 110) then leaves
  \<open>NaN\<close> in \<open>panX\<close> where the claim has \<open>0 + 10\<close>; \<open>panY\<close> gets its 10, and the
  translation of the projection becomes \<open>[NaN, 260]\<close>.
\<close>

theorem pan_lost_after_down_at_edge:
  "projectionName (run [Resize 900 500, ProjectionChange Mercator, Down exampleDownEdge]) = Mercator \<and>
   dragging (run [Resize 900 500, ProjectionChange Mercator, Down exampleDownEdge]) \<and>
   dragMode (run [Resize 900 500, ProjectionChange Mercator, Down exampleDownEdge]) = Pan \<and>
   panX (run [Resize 900 500, ProjectionChange Mercator, Down exampleDownEdge]) = Some 0 \<and>
   lastPos (run [Resize 900 500, ProjectionChange Mercator, Down exampleDownEdge])
     = Some (None, Some 100) \<and>
   panX (run [Resize 900 500, ProjectionChange Mercator, Down exampleDownEdge, Move exampleMoveEdge])
     = None \<and>
   panY (run [Resize 900 500, ProjectionChange Mercator, Down exampleDownEdge, Move exampleMoveEdge])
     = Some 10 \<and>
   map_option translate
     (projection (run [Resize 900 500, ProjectionChange Mercator, Down exampleDownEdge,
                       Move exampleMoveEdge]))
     = Some (None, Some 260)"
proof -
  have m: "run [Resize 900 500, ProjectionChange Mercator, Down exampleDownEdge, Move exampleMoveEdge]
       = onMove exampleMoveEdge (run [Resize 900 500, ProjectionChange Mercator, Down exampleDownEdge])"
    using run_snoc[of "[Resize 900 500, ProjectionChange Mercator, Down exampleDownEdge]"
                      "Move exampleMoveEdge"]
    by simp
  show ?thesis
    unfolding m run_edge_down
    by (simp add: onMove_def exampleMoveEdge_def exampleDown_def orElse_def jadd_def jsub_def
          setupProjection_def draw_def Let_def)
qed

section \<open>Zooming about the cursor\<close>

lemma projection_draw_setup:
  "projection (draw (setupProjection s)) =
     Some \<lparr> kind = projectionName s,
            translate = (jadd (Some (width s / 2)) (panX s), jadd (Some (height s / 2)) (panY s)),
            scale = radius s * projectionScale (projectionName s) * zoom s,
            rotate = drawnRotate s \<rparr>"
  by (cases "projectionName s")
     (simp_all add: draw_def setupProjection_def Let_def drawnRotate_def)

lemma draw_setup_draw: "draw (draw (setupProjection s)) = draw (setupProjection s)"
  by (cases "projectionName s") (simp_all add: draw_def setupProjection_def Let_def)

lemma screenPos_setup:
  "screenPos raw (setupProjection s) g =
    (case raw (projectionName s) (drawnRotate s) g of
       None \<Rightarrow> None
     | Some (x, y) \<Rightarrow>
         Some (jadd (jadd (Some (width s / 2)) (panX s))
                    (jmul (Some (radius s * projectionScale (projectionName s) * zoom s)) x),
               jsub (jadd (Some (height s / 2)) (panY s))
                    (jmul (Some (radius s * projectionScale (projectionName s) * zoom s)) y)))"
  by (simp add: screenPos_def projection_draw_setup project_def split: option.splits prod.splits)

lemma screenPos_draw_setup:
  "screenPos raw (draw (setupProjection s)) g = screenPos raw (setupProjection s) g"
  by (simp add: screenPos_def draw_setup_draw)

text \<open>The arithmetic of the anchor, along one axis.\<close>

lemma anchor_x:
  fixes c w px k z nz rx :: real
  assumes "z \<noteq> 0" and "w + px + k * z * rx = c"
  shows "w + (px - (c - (w + px)) * (nz / z - 1)) + k * nz * rx = c"
proof -
  have "c - (w + px) = k * z * rx" using assms(2) by simp
  then have "(c - (w + px)) * (nz / z - 1) = k * nz * rx - k * z * rx"
    using assms(1) by (simp add: field_simps)
  then show ?thesis using assms(2) by simp
qed

lemma anchor_y:
  fixes c w px k z nz rx :: real
  assumes "z \<noteq> 0" and "w + px - k * z * rx = c"
  shows "w + (px - (c - (w + px)) * (nz / z - 1)) - k * nz * rx = c"
  using anchor_x[of z w px k "- rx" c nz] assms by simp

text \<open>
  Claim C3. For every view state with a zoom between 0.5 and 6, every projection and every
  geographic point that the projection, set up from the state, puts at the cursor: after
  one wheel step at that cursor position the point is at the same screen position. Numbers
  are reals here, so the two positions are equal.
\<close>

theorem zoom_anchor:
  assumes "0.5 \<le> zoom s" and "zoom s \<le> 6"
    and "screenPos raw (setupProjection s) g = Some (Some cx, Some cy)"
  shows "screenPos raw (onWheel deltaY cx cy s) g = Some (Some cx, Some cy)"
proof -
  define nz where "nz = clamp (zoom s * (if deltaY > 0 then 0.9 else 1.1)) 0.5 6"
  define k where "k = radius s * projectionScale (projectionName s)"
  have z: "zoom s \<noteq> 0" using assms(1) by auto
  from assms(3) obtain rx ry px py where
    raw: "raw (projectionName s) (drawnRotate s) g = Some (Some rx, Some ry)"
    and px: "panX s = Some px" and py: "panY s = Some py"
    and x: "width s / 2 + px + k * zoom s * rx = cx"
    and y: "height s / 2 + py - k * zoom s * ry = cy"
    unfolding screenPos_setup k_def
    by (auto simp: jadd_def jsub_def jmul_def split: option.splits prod.splits)
  define s' where
    "s' = s \<lparr> panX := Some (px - (cx - (width s / 2 + px)) * (nz / zoom s - 1)),
              panY := Some (py - (cy - (height s / 2 + py)) * (nz / zoom s - 1)),
              zoom := nz \<rparr>"
  have w: "onWheel deltaY cx cy s = draw (setupProjection s')"
    using z px py
    by (simp add: onWheel_def Let_def s'_def nz_def jadd_def jsub_def jmul_def jdiv_def)
  have r': "drawnRotate s' = drawnRotate s" by (simp add: s'_def drawnRotate_def)
  have "screenPos raw (setupProjection s') g =
          Some (Some (width s / 2 + (px - (cx - (width s / 2 + px)) * (nz / zoom s - 1))
                        + k * nz * rx),
                Some (height s / 2 + (py - (cy - (height s / 2 + py)) * (nz / zoom s - 1))
                        - k * nz * ry))"
    unfolding screenPos_setup r' using raw
    by (simp add: s'_def k_def jadd_def jsub_def jmul_def)
  then show ?thesis
    unfolding w screenPos_draw_setup
    using anchor_x[OF z x, of nz] anchor_y[OF z y, of nz] by simp
qed

text \<open>
  In the initial view the example projection puts the point (45, 0) at (665, 250); it
  is still there after zooming in at that position, under each of the three projections.
\<close>

theorem zoom_anchor_witness:
  "0.5 \<le> zoom initialView \<and> zoom initialView \<le> 6 \<and>
   screenPos exampleRaw (setupProjection initialView) (45, 0) = Some (Some 665, Some 250) \<and>
   zoom (onWheel (- 1) 665 250 initialView) = 1.1 \<and>
   panX (onWheel (- 1) 665 250 initialView) = Some (- 21.5) \<and>
   screenPos exampleRaw (onWheel (- 1) 665 250 initialView) (45, 0) = Some (Some 665, Some 250)"
  using zoom_anchor[of initialView exampleRaw "(45, 0)" 665 250 "- 1"]
  by (simp add: screenPos_setup initialView_def exampleRaw_def jadd_def jsub_def jmul_def
        jdiv_def onWheel_def clamp_def Let_def)

text \<open>
  In a state that a run reaches, a projection that has been set up is the one that
  \<open>setupProjection\<close> builds from the variables, up to its rotation, which \<open>draw\<close> sets.
\<close>

lemma consistent_draw_setup: "consistent (draw (setupProjection s))"
  by (simp add: consistent_def projection_draw_setup)

lemma consistent_draw: "consistent s \<Longrightarrow> consistent (draw s)"
  by (simp add: consistent_def draw_def split: option.splits)

lemma consistent_same:
  assumes "consistent s" and "projection s' = projection s"
    and "projectionName s' = projectionName s" and "width s' = width s"
    and "height s' = height s" and "radius s' = radius s" and "zoom s' = zoom s"
    and "panX s' = panX s" and "panY s' = panY s"
  shows "consistent s'"
  using assms by (simp add: consistent_def split: option.splits)

lemma consistent_onMove: "consistent s \<Longrightarrow> consistent (onMove e s)"
  unfolding onMove_def Let_def
  by (auto split: option.splits prod.splits
        intro: consistent_same[of s] consistent_same[OF consistent_draw_setup])

lemma consistent_step: "consistent s \<Longrightarrow> consistent (step e s)"
proof (cases e)
  case (Down ev)
  assume "consistent s"
  then show ?thesis unfolding Down by (auto simp: onDown_def intro: consistent_same[of s])
next
  case (Move ev)
  assume "consistent s"
  then show ?thesis unfolding Move by (simp add: consistent_onMove)
next
  case Up
  assume "consistent s"
  then show ?thesis unfolding Up by (auto simp: onUp_def intro: consistent_same[of s])
next
  case (Wheel d cx cy)
  show ?thesis unfolding Wheel by (simp add: onWheel_def Let_def consistent_draw_setup)
next
  case Tick
  assume "consistent s"
  then show ?thesis unfolding Tick
    by (auto simp: animate_def Let_def intro!: consistent_draw intro: consistent_same[of s])
next
  case (ProjectionChange n)
  show ?thesis unfolding ProjectionChange
    by (simp add: onProjectionChange_def consistent_draw_setup)
next
  case (Resize w h)
  show ?thesis unfolding Resize by (simp add: resizeCanvas_def consistent_draw_setup)
qed

lemma consistent_run: "consistent (run evs)"
  unfolding run_def
  by (rule fold_step_inv[of consistent, OF consistent_step])
     (simp_all add: consistent_def initialView_def)

lemma screenPos_run:
  assumes "projection (run evs) \<noteq> None"
  shows "screenPos raw (run evs) g = screenPos raw (setupProjection (run evs)) g"
proof -
  from assms consistent_run[of evs] obtain P where
    P: "projection (run evs) = Some P" "kind P = projectionName (run evs)"
       "translate P = (jadd (Some (width (run evs) / 2)) (panX (run evs)),
                       jadd (Some (height (run evs) / 2)) (panY (run evs)))"
       "scale P = radius (run evs) * projectionScale (projectionName (run evs)) * zoom (run evs)"
    by (auto simp: consistent_def)
  have "projection (draw (run evs)) = Some (P \<lparr> rotate := drawnRotate (run evs) \<rparr>)"
    using P(1) synced_run[of evs] by (simp add: draw_def drawnRotate_def synced_def)
  moreover have "P \<lparr> rotate := drawnRotate (run evs) \<rparr> =
      \<lparr> kind = projectionName (run evs),
        translate = (jadd (Some (width (run evs) / 2)) (panX (run evs)),
                     jadd (Some (height (run evs) / 2)) (panY (run evs))),
        scale = radius (run evs) * projectionScale (projectionName (run evs)) * zoom (run evs),
        rotate = drawnRotate (run evs) \<rparr>"
    using P(2-4) by simp
  ultimately show ?thesis
    by (simp add: screenPos_def projection_draw_setup)
qed

section \<open>Culling of the points\<close>

lemma drawPoint_culled:
  assumes "s_lat p = Some la" and "s_lon p = Some lo"
    and "(\<exists>r. geoRotation (rotate P) (lo, la) = Some r \<and> num_gt (jabs (fst r)) (Some 90)) \<or>
         (\<exists>x y. project raw P (lo, la) = Some (x, y) \<and> \<not> (isFinite x \<and> isFinite y))"
  shows "drawPoint geoRotation raw Orthographic P p = []"
  using assms by (auto simp: drawPoint_def Let_def split: option.splits)

text \<open>
  Claim C6. Under the orthographic projection, with any rotation, a point with coordinates
  whose rotated longitude is more than 90 degrees from the centre in absolute value, or
  whose projected coordinates are not both finite, gets no primitive: the loop body emits
  nothing for it, and the frame is the one drawn without the point.
\<close>

theorem back_face_culling:
  assumes "projectionName s = Orthographic" and "projection s = Some P"
    and "s_lat p = Some la" and "s_lon p = Some lo"
    and "(\<exists>r. geoRotation (rotate P) (lo, la) = Some r \<and> num_gt (jabs (fst r)) (Some 90)) \<or>
         (\<exists>x y. project raw P (lo, la) = Some (x, y) \<and> \<not> (isFinite x \<and> isFinite y))"
  shows "drawPoint geoRotation raw (projectionName s) P p = [] \<and>
         drawPoints geoRotation raw s (before @ p # after)
           = drawPoints geoRotation raw s (before @ after)"
  using drawPoint_culled[of p la lo geoRotation P raw] assms
  by (simp add: drawPoints_def)

lemma example_frame:
  "draw (setupProjection initialView) =
     initialView \<lparr> projection :=
       Some \<lparr> kind = Orthographic, translate = (Some 450, Some 250), scale = 430,
              rotate = (Some 0, Some (- 15)) \<rparr> \<rparr>"
  by (simp add: draw_def setupProjection_def initialView_def jadd_def Let_def)

text \<open>The example point at longitude 170 is on the far side of the unrotated globe.\<close>

theorem back_face_culling_witness:
  "projectionName (draw (setupProjection initialView)) = Orthographic \<and>
   s_lat examplePoint = Some 0 \<and> s_lon examplePoint = Some 170 \<and>
   exampleRotation (Some 0, Some (- 15)) (170, 0) = Some (Some 170, Some 0) \<and>
   num_gt (jabs (Some 170)) (Some 90) \<and>
   drawPoints exampleRotation exampleRaw (draw (setupProjection initialView)) [examplePoint] = []"
  using back_face_culling
          [of "draw (setupProjection initialView)"
              "\<lparr> kind = Orthographic, translate = (Some 450, Some 250), scale = 430,
                 rotate = (Some 0, Some (- 15)) \<rparr>"
              examplePoint 0 170 exampleRotation exampleRaw "[]" "[]"]
  unfolding example_frame
  by (simp add: initialView_def examplePoint_def exampleRotation_def
        jadd_def jabs_def num_gt_def drawPoints_def)

end
